theory Spec2Isabelle
  imports Main
begin

section \<open>The element tree\<close>

text \<open>
  What a JSX expression evaluates to: \<open>createElement(type, props, ...children)\<close>.
  An element type is an intrinsic tag (\<open>div\<close>, \<open>h2\<close>, ...), one of the two components the
  shell names (\<open>ApolloProvider\<close>, \<open>ErrorBoundary\<close>), or the page component the shell receives.
  Values the code only passes along (the page component, its props, the Apollo client) are
  opaque, of type \<open>'v\<close>. An event handler is a reference to a method of the boundary.
\<close>

datatype handler = HandleRetry

datatype 'v jsxProp = ClassName string | OnClick handler | Client 'v | Spread 'v

datatype 'v elementType = Intrinsic string | ApolloProvider | ErrorBoundaryClass | Page 'v

datatype 'v ReactNode =
    JSXText string
  | Element "'v elementType" "'v jsxProp list" "'v ReactNode list"
  | NodeArray "'v ReactNode list"

fun text_content :: "'v ReactNode \<Rightarrow> string" where
  "text_content (JSXText s) = s"
| "text_content (Element t ps kids) = concat (map text_content kids)"
| "text_content (NodeArray kids) = concat (map text_content kids)"

fun elements_of :: "'v elementType \<Rightarrow> 'v ReactNode \<Rightarrow> 'v ReactNode list" where
  "elements_of t (JSXText s) = []"
| "elements_of t (Element t' ps kids) =
     (if t' = t then [Element t' ps kids] else []) @ concat (map (elements_of t) kids)"
| "elements_of t (NodeArray kids) = concat (map (elements_of t) kids)"

fun element_props :: "'v ReactNode \<Rightarrow> 'v jsxProp list" where
  "element_props (Element t ps kids) = ps"
| "element_props n = []"

fun element_children :: "'v ReactNode \<Rightarrow> 'v ReactNode list" where
  "element_children (Element t ps kids) = kids"
| "element_children n = []"

fun element_type :: "'v ReactNode \<Rightarrow> 'v elementType option" where
  "element_type (Element t ps kids) = Some t"
| "element_type n = None"

section \<open>components/ErrorBoundary.tsx\<close>

record State =
  hasError :: bool

record 'v ErrorBoundaryProps =
  children :: "'v ReactNode"

text \<open>An instance of the class: \<open>this.props\<close> and \<open>this.state\<close>.\<close>

record 'v ErrorBoundary =
  props :: "'v ErrorBoundaryProps"
  state :: State

text \<open>The values \<open>componentDidCatch\<close> receives from the framework.\<close>

record Error =
  message :: string

record ErrorInfo =
  componentStack :: string

text \<open>The second argument of \<open>Sentry.captureException\<close>: \<open>{ extra: errorInfo }\<close>.\<close>

record CaptureContext =
  extra :: ErrorInfo

text \<open>
  \<open>Sentry.captureException(exception, hint?)\<close> is an imported capability. It either
  returns an event id or throws; \<open>Inl\<close> is the thrown value.
\<close>

type_synonym Sentry = "Error \<Rightarrow> CaptureContext option \<Rightarrow> Error + string"

text \<open>
  Everything observable from outside the instance, in the order it happens: console
  output, calls of the reporter, and the state updates the framework applies.
\<close>

datatype event =
    ConsoleLog string Error ErrorInfo
  | CaptureException Error "CaptureContext option"
  | StateUpdate State

record 'v World =
  boundary :: "'v ErrorBoundary"
  trace :: "event list"

datatype completion = Normal | Throw Error

definition constructor :: "'v ErrorBoundaryProps \<Rightarrow> 'v ErrorBoundary" where
  "constructor p = \<lparr>props = p, state = \<lparr>hasError = False\<rparr>\<rparr>"

definition getDerivedStateFromError :: State where
  "getDerivedStateFromError = \<lparr>hasError = True\<rparr>"

definition console_log :: "string \<Rightarrow> Error \<Rightarrow> ErrorInfo \<Rightarrow> 'v World \<Rightarrow> 'v World" where
  "console_log label e i w = w\<lparr>trace := trace w @ [ConsoleLog label e i]\<rparr>"

definition captureException ::
  "Sentry \<Rightarrow> Error \<Rightarrow> CaptureContext option \<Rightarrow> 'v World \<Rightarrow> (Error + string) \<times> 'v World" where
  "captureException S e c w = (S e c, w\<lparr>trace := trace w @ [CaptureException e c]\<rparr>)"

text \<open>
  \<open>componentDidCatch\<close> has no \<open>try\<close>: what the reporter throws leaves the method.
  The event id the reporter returns is dropped.
\<close>

definition componentDidCatch ::
  "Sentry \<Rightarrow> Error \<Rightarrow> ErrorInfo \<Rightarrow> 'v World \<Rightarrow> completion \<times> 'v World" where
  "componentDidCatch S error errorInfo w =
     (let w1 = console_log ''Error caught in ErrorBoundary:'' error errorInfo w in
      case captureException S error (Some \<lparr>extra = errorInfo\<rparr>) w1 of
        (Inl x, w2) \<Rightarrow> (Throw x, w2)
      | (Inr eventId, w2) \<Rightarrow> (Normal, w2))"

text \<open>
  \<open>this.setState(s)\<close>: the framework replaces the instance's state (\<open>State\<close> has one
  field, so merging a full \<open>State\<close> is replacing it) and the update is observable.
\<close>

definition setState :: "State \<Rightarrow> 'v World \<Rightarrow> 'v World" where
  "setState s w = w\<lparr>boundary := (boundary w)\<lparr>state := s\<rparr>, trace := trace w @ [StateUpdate s]\<rparr>"

definition handleRetry :: "'v World \<Rightarrow> 'v World" where
  "handleRetry w = setState \<lparr>hasError = False\<rparr> w"

fun dispatch :: "handler \<Rightarrow> 'v World \<Rightarrow> 'v World" where
  "dispatch HandleRetry w = handleRetry w"

text \<open>The JSX of the first branch of \<open>render\<close>; \<open>onClick\<close> refers to \<open>this.handleRetry\<close>.\<close>

definition fallback_view :: "'v ReactNode" where
  "fallback_view =
     Element (Intrinsic ''div'')
       [ClassName ''min-h-screen flex flex-col items-center justify-center bg-red-100 text-red-800'']
       [Element (Intrinsic ''h2'') [ClassName ''text-3xl font-bold'']
          [JSXText ''Oops! Something went wrong.''],
        Element (Intrinsic ''p'') [ClassName ''mt-2'']
          [JSXText ''Our team has been notified.''],
        Element (Intrinsic ''button'')
          [OnClick HandleRetry,
           ClassName ''mt-4 px-4 py-2 bg-blue-600 text-white rounded-lg shadow-md hover:bg-blue-700'']
          [JSXText ''Try again?'']]"

definition render :: "'v ErrorBoundary \<Rightarrow> 'v ReactNode" where
  "render this = (if hasError (state this) then fallback_view else children (props this))"

section \<open>pages/_app.tsx\<close>

record 'v AppProps =
  Component :: 'v
  pageProps :: 'v

text \<open>
  \<open>client\<close> is imported from \<open>@/graphql/apolloClient\<close> and is a parameter here.
  The space between \<open><ErrorBoundary>\<close> and the comment on the same line is JSX text
  without a line break, so it is kept as a child; the comment itself and the
  line break after it produce no child.
\<close>

definition App :: "'v \<Rightarrow> 'v AppProps \<Rightarrow> 'v ReactNode" where
  "App client ap =
     Element ApolloProvider [Client client]
       [Element ErrorBoundaryClass []
          [JSXText '' '',
           Element (Page (Component ap)) [Spread (pageProps ap)] []]]"

section \<open>The hosting framework's contract\<close>

text \<open>
  The class only declares its lifecycle methods; React calls them. For a class component that
  declares both error methods, React, when a descendant throws while rendering, first takes
  the result of the static \<open>getDerivedStateFromError\<close> as the new state (render phase) and
  afterwards calls \<open>componentDidCatch(error, errorInfo)\<close> (commit phase).
\<close>

definition intercept :: "Sentry \<Rightarrow> Error \<Rightarrow> ErrorInfo \<Rightarrow> 'v World \<Rightarrow> completion \<times> 'v World" where
  "intercept S error errorInfo w =
     componentDidCatch S error errorInfo (setState getDerivedStateFromError w)"

definition mount :: "'v ErrorBoundaryProps \<Rightarrow> 'v World" where
  "mount p = \<lparr>boundary = constructor p, trace = []\<rparr>"

text \<open>
  One render pass. The framework renders the tree that \<open>render\<close> returned; \<open>host\<close> is that
  rendering, which either yields an output or throws in some descendant. An error thrown
  while the boundary already shows its fallback is not the boundary's to catch and
  propagates.
\<close>

datatype 'd outcome = Renders 'd | Throws Error ErrorInfo

definition render_pass ::
  "Sentry \<Rightarrow> ('v ReactNode \<Rightarrow> 'd outcome) \<Rightarrow> 'v World \<Rightarrow> completion \<times> 'v World" where
  "render_pass S host w =
     (case host (render (boundary w)) of
        Renders d \<Rightarrow> (Normal, w)
      | Throws e i \<Rightarrow>
          if hasError (state (boundary w)) then (Throw e, w) else intercept S e i w)"

text \<open>
  What stays on screen after the framework has run an interception or a render pass. When
  it completed, that is the boundary's output for its state. When an exception left the
  boundary's own lifecycle method, nothing above the boundary catches it (the shell puts
  no second boundary around it) and React unmounts the whole root: nothing stays.
\<close>

definition displayed :: "completion \<times> 'v World \<Rightarrow> 'v ReactNode option" where
  "displayed r =
     (case fst r of
        Normal \<Rightarrow> Some (render (boundary (snd r)))
      | Throw x \<Rightarrow> None)"

text \<open>The operations that can reach a mounted boundary, and the two states of the spec.\<close>

datatype op = Intercept Error ErrorInfo | Retry | Render

fun step :: "Sentry \<Rightarrow> op \<Rightarrow> 'v World \<Rightarrow> 'v World" where
  "step S (Intercept e i) w = snd (intercept S e i w)"
| "step S Retry w = dispatch HandleRetry w"
| "step S Render w = w"

datatype phase = Healthy | Faulted

definition phase_of :: "'v World \<Rightarrow> phase" where
  "phase_of w = (if hasError (state (boundary w)) then Faulted else Healthy)"

definition is_intercept :: "op \<Rightarrow> bool" where
  "is_intercept a = (case a of Intercept e i \<Rightarrow> True | Retry \<Rightarrow> False | Render \<Rightarrow> False)"

text \<open>The calls of the reporter recorded in a trace, oldest first, with their arguments.\<close>

definition reports :: "event list \<Rightarrow> (Error \<times> CaptureContext option) list" where
  "reports tr = concat (map (\<lambda>ev. case ev of CaptureException e c \<Rightarrow> [(e, c)] | _ \<Rightarrow> []) tr)"

text \<open>\<open>precedes a b tr\<close>: \<open>b\<close> occurs in \<open>tr\<close> after the first occurrence of \<open>a\<close>.\<close>

fun precedes :: "'a \<Rightarrow> 'a \<Rightarrow> 'a list \<Rightarrow> bool" where
  "precedes a b [] = False"
| "precedes a b (x # xs) = (if x = a then List.member xs b else precedes a b xs)"

subsection \<open>Concrete inputs\<close>

definition failing_reporter :: Sentry where
  "failing_reporter e c = Inl \<lparr>message = ''reporter unavailable''\<rparr>"

definition working_reporter :: Sentry where
  "working_reporter e c = Inr ''event-1''"

definition error_x :: Error where
  "error_x = \<lparr>message = ''x''\<rparr>"

definition info_x :: ErrorInfo where
  "info_x = \<lparr>componentStack = ''at Page''\<rparr>"

definition page_props :: "unit ErrorBoundaryProps" where
  "page_props = \<lparr>children = Element (Page ()) [Spread ()] []\<rparr>"

definition throwing_child :: "unit ReactNode \<Rightarrow> string outcome" where
  "throwing_child n = Throws error_x info_x"

definition rendering_child :: "unit ReactNode \<Rightarrow> string outcome" where
  "rendering_child n = Renders ''page output''"

section \<open>Shared facts\<close>

lemma componentDidCatch_world:
  "snd (componentDidCatch S e i w) =
     w\<lparr>trace := trace w @ [ConsoleLog ''Error caught in ErrorBoundary:'' e i,
                            CaptureException e (Some \<lparr>extra = i\<rparr>)]\<rparr>"
  by (simp add: componentDidCatch_def console_log_def captureException_def Let_def split: sum.split)

lemma componentDidCatch_completion:
  "fst (componentDidCatch S e i w) =
     (case S e (Some \<lparr>extra = i\<rparr>) of Inl x \<Rightarrow> Throw x | Inr eventId \<Rightarrow> Normal)"
  by (simp add: componentDidCatch_def console_log_def captureException_def Let_def split: sum.split)

lemma intercept_world:
  "snd (intercept S e i w) =
     \<lparr>boundary = (boundary w)\<lparr>state := \<lparr>hasError = True\<rparr>\<rparr>,
      trace = trace w @ [StateUpdate \<lparr>hasError = True\<rparr>,
                         ConsoleLog ''Error caught in ErrorBoundary:'' e i,
                         CaptureException e (Some \<lparr>extra = i\<rparr>)]\<rparr>"
  by (simp add: intercept_def componentDidCatch_world setState_def getDerivedStateFromError_def)

lemma intercept_completion:
  "fst (intercept S e i w) =
     (case S e (Some \<lparr>extra = i\<rparr>) of Inl x \<Rightarrow> Throw x | Inr eventId \<Rightarrow> Normal)"
  by (simp add: intercept_def componentDidCatch_completion)

lemma handleRetry_world:
  "handleRetry w =
     \<lparr>boundary = (boundary w)\<lparr>state := \<lparr>hasError = False\<rparr>\<rparr>,
      trace = trace w @ [StateUpdate \<lparr>hasError = False\<rparr>]\<rparr>"
  by (simp add: handleRetry_def setState_def)

lemma reports_append: "reports (xs @ ys) = reports xs @ reports ys"
  by (simp add: reports_def)

lemma reports_simps:
  "reports [] = []"
  "reports (ConsoleLog l e i # tr) = reports tr"
  "reports (StateUpdate s # tr) = reports tr"
  "reports (CaptureException e c # tr) = (e, c) # reports tr"
  by (simp_all add: reports_def)

lemma fallback_elements:
  "elements_of (Intrinsic ''h2'') (fallback_view :: 'v ReactNode) =
     [Element (Intrinsic ''h2'') [ClassName ''text-3xl font-bold'']
        [JSXText ''Oops! Something went wrong.'']]"
  "elements_of (Intrinsic ''p'') (fallback_view :: 'v ReactNode) =
     [Element (Intrinsic ''p'') [ClassName ''mt-2''] [JSXText ''Our team has been notified.'']]"
  "elements_of (Intrinsic ''button'') (fallback_view :: 'v ReactNode) =
     [Element (Intrinsic ''button'')
        [OnClick HandleRetry,
         ClassName ''mt-4 px-4 py-2 bg-blue-600 text-white rounded-lg shadow-md hover:bg-blue-700'']
        [JSXText ''Try again?'']]"
  by (simp_all add: fallback_view_def)

lemma phase_after_intercept: "phase_of (snd (intercept S e i w)) = Faulted"
  by (simp add: phase_of_def intercept_world)

lemma phase_after_retry: "phase_of (handleRetry w) = Healthy"
  by (simp add: phase_of_def handleRetry_world)

section \<open>Rendering\<close>

text \<open>
  C1. \<open>render\<close> reads nothing but the instance. With \<open>hasError\<close> false it
  returns \<open>props.children\<close> itself. With \<open>hasError\<close> true it returns one fixed view, the
  same for every instance, that holds exactly one \<open>h2\<close> heading announcing the failure, one
  paragraph explaining it, and one button labelled as the retry control whose click
  handler is \<open>handleRetry\<close>.
\<close>

theorem render_by_state:
  "(\<not> hasError (state b) \<longrightarrow> render b = children (props b)) \<and>
   (hasError (state b) \<longrightarrow>
      render b = fallback_view \<and>
      map text_content (elements_of (Intrinsic ''h2'') (render b)) = [''Oops! Something went wrong.''] \<and>
      map text_content (elements_of (Intrinsic ''p'') (render b)) = [''Our team has been notified.''] \<and>
      map text_content (elements_of (Intrinsic ''button'') (render b)) = [''Try again?''] \<and>
      map (\<lambda>n. List.member (element_props n) (OnClick HandleRetry))
        (elements_of (Intrinsic ''button'') (render b)) = [True] \<and>
      dispatch HandleRetry w = handleRetry w)"
  by (simp add: render_def fallback_elements)

theorem render_by_state_witness:
  "render \<lparr>props = page_props, state = \<lparr>hasError = False\<rparr>\<rparr> = Element (Page ()) [Spread ()] [] \<and>
   render \<lparr>props = page_props, state = \<lparr>hasError = True\<rparr>\<rparr> = fallback_view \<and>
   map text_content (elements_of (Intrinsic ''button'')
     (render \<lparr>props = page_props, state = \<lparr>hasError = True\<rparr>\<rparr>)) = [''Try again?'']"
proof -
  let ?healthy = "\<lparr>props = page_props, state = \<lparr>hasError = False\<rparr>\<rparr>"
  let ?faulted = "\<lparr>props = page_props, state = \<lparr>hasError = True\<rparr>\<rparr>"
  have "render ?healthy = children (props ?healthy)"
    using render_by_state [of ?healthy] by simp
  then have healthy: "render ?healthy = Element (Page ()) [Spread ()] []"
    by (simp add: page_props_def)
  have faulted: "hasError (state ?faulted)"
    by simp
  have view: "render ?faulted = fallback_view"
    using render_by_state [of ?faulted] faulted by blast
  have button: "map text_content (elements_of (Intrinsic ''button'') (render ?faulted)) = [''Try again?'']"
    using render_by_state [of ?faulted] faulted by blast
  from healthy view button show ?thesis by blast
qed

text \<open>
  C7. A boundary whose \<open>hasError\<close> is false is transparent: \<open>render\<close> hands back the
  children subtree itself, so whatever the framework makes of the boundary's output is what
  it makes of the subtree rendered directly; this holds in particular right after mounting.
\<close>

theorem healthy_boundary_transparent:
  "(\<not> hasError (state b) \<longrightarrow>
      render b = children (props b) \<and> host (render b) = host (children (props b))) \<and>
   host (render (boundary (mount p))) = host (children p)"
  by (simp add: render_def mount_def constructor_def)

theorem healthy_boundary_transparent_witness:
  "\<not> hasError (state (constructor page_props)) \<and>
   rendering_child (render (constructor page_props)) = rendering_child (children page_props) \<and>
   render (constructor page_props) = Element (Page ()) [Spread ()] []"
  using healthy_boundary_transparent [of "constructor page_props" rendering_child]
  by (simp add: constructor_def page_props_def)

section \<open>Interception\<close>

text \<open>
  C3, as the spec states it: when the reporter throws on an intercepted error, \<open>hasError\<close>
  still becomes true and the fallback view is rendered. With a reporter that throws,
  \<open>hasError\<close> does become true, but the exception leaves \<open>componentDidCatch\<close>, the
  interception and the render pass end by throwing, and the fallback view does not stay
  on screen.
\<close>

theorem fallback_after_reporter_failure_counterexample:
  "failing_reporter error_x (Some \<lparr>extra = info_x\<rparr>) = Inl \<lparr>message = ''reporter unavailable''\<rparr> \<and>
   throwing_child (render (boundary (mount page_props))) = Throws error_x info_x \<and>
   hasError (state (boundary (snd (render_pass failing_reporter throwing_child (mount page_props))))) \<and>
   fst (render_pass failing_reporter throwing_child (mount page_props)) =
     Throw \<lparr>message = ''reporter unavailable''\<rparr> \<and>
   displayed (render_pass failing_reporter throwing_child (mount page_props)) \<noteq> Some fallback_view \<and>
   displayed (intercept failing_reporter error_x info_x (mount page_props)) = None"
  by (simp add: displayed_def render_pass_def throwing_child_def render_def mount_def
      constructor_def intercept_completion intercept_world failing_reporter_def)

text \<open>
  C3, amended. For every intercepted descendant error \<open>hasError\<close> becomes true whatever
  the reporter does, and the boundary after the interception is the same for any two
  reporters: the outcome of the report call never affects the boundary's state. The
  fallback view stays on screen exactly when the reporter call returns; when the reporter
  throws, the interception ends by throwing and nothing stays. The same holds for the
  first render pass of a mounted boundary whose child throws.
\<close>

theorem reporter_outcome_and_fallback:
  "hasError (state (boundary (snd (intercept S e i w)))) \<and>
   boundary (snd (intercept S e i w)) = boundary (snd (intercept S' e i w)) \<and>
   displayed (intercept S e i w) =
     (case S e (Some \<lparr>extra = i\<rparr>) of Inl x \<Rightarrow> None | Inr eventId \<Rightarrow> Some fallback_view) \<and>
   (host (children p) = Throws e i \<longrightarrow>
      hasError (state (boundary (snd (render_pass S host (mount p))))) \<and>
      boundary (snd (render_pass S host (mount p))) = boundary (snd (render_pass S' host (mount p))) \<and>
      displayed (render_pass S host (mount p)) =
        (case S e (Some \<lparr>extra = i\<rparr>) of Inl x \<Rightarrow> None | Inr eventId \<Rightarrow> Some fallback_view))"
proof -
  have flag: "hasError (state (boundary (snd (intercept S1 e i w1))))" for S1 and w1 :: "'c World"
    by (simp add: intercept_world)
  have same: "boundary (snd (intercept S e i w1)) = boundary (snd (intercept S' e i w1))"
    for w1 :: "'c World"
    by (simp add: intercept_world)
  have shown: "displayed (intercept S e i w1) =
     (case S e (Some \<lparr>extra = i\<rparr>) of Inl x \<Rightarrow> None | Inr eventId \<Rightarrow> Some fallback_view)"
    for w1 :: "'c World"
    by (simp add: displayed_def intercept_completion intercept_world render_def split: sum.split)
  have flag_w: "hasError (state (boundary (snd (intercept S e i w))))"
    by (simp add: intercept_world)
  have same_w: "boundary (snd (intercept S e i w)) = boundary (snd (intercept S' e i w))"
    by (simp add: intercept_world)
  have shown_w: "displayed (intercept S e i w) =
     (case S e (Some \<lparr>extra = i\<rparr>) of Inl x \<Rightarrow> None | Inr eventId \<Rightarrow> Some fallback_view)"
    by (simp add: displayed_def intercept_completion intercept_world render_def split: sum.split)
  have pass: "render_pass S1 host (mount p) = intercept S1 e i (mount p)"
    if "host (children p) = Throws e i" for S1
    using that by (simp add: render_pass_def render_def mount_def constructor_def)
  have passes: "host (children p) = Throws e i \<longrightarrow>
      hasError (state (boundary (snd (render_pass S host (mount p))))) \<and>
      boundary (snd (render_pass S host (mount p))) = boundary (snd (render_pass S' host (mount p))) \<and>
      displayed (render_pass S host (mount p)) =
        (case S e (Some \<lparr>extra = i\<rparr>) of Inl x \<Rightarrow> None | Inr eventId \<Rightarrow> Some fallback_view)"
    using flag [of S "mount p"] same [of "mount p"] shown [of "mount p"] by (simp add: pass)
  from flag_w same_w shown_w passes show ?thesis
    by (intro conjI) assumption+
qed

theorem reporter_outcome_and_fallback_witness:
  "hasError (state (boundary (snd (intercept failing_reporter error_x info_x (mount page_props))))) \<and>
   displayed (intercept failing_reporter error_x info_x (mount page_props)) = None \<and>
   displayed (intercept working_reporter error_x info_x (mount page_props)) = Some fallback_view \<and>
   throwing_child (children page_props) = Throws error_x info_x \<and>
   displayed (render_pass working_reporter throwing_child (mount page_props)) = Some fallback_view \<and>
   displayed (render_pass failing_reporter throwing_child (mount page_props)) = None"
proof -
  have throws: "throwing_child (children page_props) = Throws error_x info_x"
    by (simp add: throwing_child_def)
  have failing: "failing_reporter error_x (Some \<lparr>extra = info_x\<rparr>) = Inl \<lparr>message = ''reporter unavailable''\<rparr>"
    by (simp add: failing_reporter_def)
  have working: "working_reporter error_x (Some \<lparr>extra = info_x\<rparr>) = Inr ''event-1''"
    by (simp add: working_reporter_def)
  note bad = reporter_outcome_and_fallback
    [of failing_reporter error_x info_x "mount page_props" failing_reporter throwing_child page_props]
  note good = reporter_outcome_and_fallback
    [of working_reporter error_x info_x "mount page_props" working_reporter throwing_child page_props]
  have flag: "hasError (state (boundary (snd (intercept failing_reporter error_x info_x (mount page_props)))))"
    using bad by blast
  have none: "displayed (intercept failing_reporter error_x info_x (mount page_props)) = None"
    using bad failing by simp
  have some: "displayed (intercept working_reporter error_x info_x (mount page_props)) = Some fallback_view"
    using good working by simp
  have pass_some: "displayed (render_pass working_reporter throwing_child (mount page_props)) = Some fallback_view"
    using good throws working by simp
  have pass_none: "displayed (render_pass failing_reporter throwing_child (mount page_props)) = None"
    using bad throws failing by simp
  from flag none some throws pass_some pass_none show ?thesis
    by (intro conjI) assumption+
qed

text \<open>
  C4, as the spec states it: an interception never throws, a failing reporter being
  swallowed. The method has no handler around the reporter call, so with a reporter that
  throws the interception ends by throwing the reporter's exception.
\<close>

theorem intercept_never_throws_counterexample:
  "fst (intercept failing_reporter error_x info_x (mount page_props)) =
     Throw \<lparr>message = ''reporter unavailable''\<rparr> \<and>
   fst (componentDidCatch failing_reporter error_x info_x (mount page_props)) \<noteq> Normal"
  by (simp add: intercept_completion componentDidCatch_completion failing_reporter_def)

text \<open>
  C4, amended. An interception has no error handling of its own: it completes normally
  when the reporter call returns, and when the reporter throws, that exception leaves
  \<open>componentDidCatch\<close> and the interception unchanged. In both cases the log entry and the
  reporter call have been made and \<open>hasError\<close> is true.
\<close>

theorem intercept_completes_as_reporter:
  "fst (intercept S e i w) =
     (case S e (Some \<lparr>extra = i\<rparr>) of Inl x \<Rightarrow> Throw x | Inr eventId \<Rightarrow> Normal) \<and>
   fst (componentDidCatch S e i w) = fst (intercept S e i w) \<and>
   hasError (state (boundary (snd (intercept S e i w)))) \<and>
   List.member (trace (snd (intercept S e i w))) (ConsoleLog ''Error caught in ErrorBoundary:'' e i) \<and>
   List.member (trace (snd (intercept S e i w))) (CaptureException e (Some \<lparr>extra = i\<rparr>))"
  by (simp add: intercept_completion componentDidCatch_completion intercept_world)

theorem intercept_completes_as_reporter_witness:
  "fst (intercept working_reporter error_x info_x (mount page_props)) = Normal \<and>
   fst (intercept failing_reporter error_x info_x (mount page_props)) =
     Throw \<lparr>message = ''reporter unavailable''\<rparr>"
  using intercept_completes_as_reporter [of working_reporter error_x info_x "mount page_props"]
    intercept_completes_as_reporter [of failing_reporter error_x info_x "mount page_props"]
  by (simp add: working_reporter_def failing_reporter_def)

text \<open>
  C5, as the spec states it: the log entry first, the reporter call second, and only then
  the change of \<open>hasError\<close> to true. In the trace of an interception on a freshly mounted
  boundary the reporter call does not come before the state update; the state update comes
  before the log entry.
\<close>

theorem state_update_last_counterexample:
  "\<not> precedes (CaptureException error_x (Some \<lparr>extra = info_x\<rparr>)) (StateUpdate \<lparr>hasError = True\<rparr>)
       (trace (snd (intercept working_reporter error_x info_x (mount page_props)))) \<and>
   precedes (StateUpdate \<lparr>hasError = True\<rparr>) (ConsoleLog ''Error caught in ErrorBoundary:'' error_x info_x)
       (trace (snd (intercept working_reporter error_x info_x (mount page_props))))"
  by (simp add: intercept_world mount_def error_x_def info_x_def)

text \<open>
  C5, amended. An interception adds exactly three events, in this order: the state update
  to \<open>hasError = true\<close> (from \<open>getDerivedStateFromError\<close>), the log entry with the error and
  the render-phase context, and the reporter call with the error and the context.
  \<open>componentDidCatch\<close> itself makes the log entry and then the reporter call, and leaves
  the boundary as it found it.
\<close>

theorem intercept_effect_order:
  "trace (snd (intercept S e i w)) =
     trace w @ [StateUpdate \<lparr>hasError = True\<rparr>,
                ConsoleLog ''Error caught in ErrorBoundary:'' e i,
                CaptureException e (Some \<lparr>extra = i\<rparr>)] \<and>
   trace (snd (componentDidCatch S e i w)) =
     trace w @ [ConsoleLog ''Error caught in ErrorBoundary:'' e i,
                CaptureException e (Some \<lparr>extra = i\<rparr>)] \<and>
   boundary (snd (componentDidCatch S e i w)) = boundary w"
  by (simp add: intercept_world componentDidCatch_world)

theorem intercept_effect_order_witness:
  "trace (snd (intercept failing_reporter error_x info_x (mount page_props))) =
     [StateUpdate \<lparr>hasError = True\<rparr>,
      ConsoleLog ''Error caught in ErrorBoundary:'' error_x info_x,
      CaptureException error_x (Some \<lparr>extra = info_x\<rparr>)]"
  using intercept_effect_order [of failing_reporter error_x info_x "mount page_props"]
  by (simp add: mount_def)

text \<open>
  C6. An interception of an error calls the reporter exactly once more than before, with
  that very error and the context \<open>{ extra: errorInfo }\<close>, which is an object and not null.
  A freshly mounted boundary whose child throws ends its first render pass with exactly one
  report, of the thrown error; one whose child renders ends it with none.
\<close>

theorem one_report_per_interception:
  "reports (trace (snd (intercept S e i w))) = reports (trace w) @ [(e, Some \<lparr>extra = i\<rparr>)] \<and>
   (host (children p) = Throws e i \<longrightarrow>
      reports (trace (snd (render_pass S host (mount p)))) = [(e, Some \<lparr>extra = i\<rparr>)]) \<and>
   (host (children p) = Renders d \<longrightarrow>
      reports (trace (snd (render_pass S host (mount p)))) = [])"
  by (simp add: intercept_world reports_append reports_simps render_pass_def render_def
      mount_def constructor_def)

theorem one_report_per_interception_witness:
  "throwing_child (children page_props) = Throws error_x info_x \<and>
   map (\<lambda>r. message (fst r))
     (reports (trace (snd (render_pass working_reporter throwing_child (mount page_props))))) = [''x''] \<and>
   rendering_child (children page_props) = Renders ''page output'' \<and>
   reports (trace (snd (render_pass working_reporter rendering_child (mount page_props)))) = []"
proof -
  have throws: "throwing_child (children page_props) = Throws error_x info_x"
    by (simp add: throwing_child_def)
  have renders: "rendering_child (children page_props) = Renders ''page output''"
    by (simp add: rendering_child_def)
  have one: "reports (trace (snd (render_pass working_reporter throwing_child (mount page_props))))
      = [(error_x, Some \<lparr>extra = info_x\<rparr>)]"
    using one_report_per_interception [of working_reporter error_x info_x _ throwing_child page_props]
      throws by blast
  have none: "reports (trace (snd (render_pass working_reporter rendering_child (mount page_props)))) = []"
    using one_report_per_interception [of working_reporter _ _ _ rendering_child page_props "''page output''"]
      renders by blast
  from one have "map (\<lambda>r. message (fst r))
     (reports (trace (snd (render_pass working_reporter throwing_child (mount page_props))))) = [''x'']"
    by (simp add: error_x_def)
  with throws renders none show ?thesis by blast
qed

text \<open>
  C10. The boundary after an interception does not depend on the error, on the
  render-phase context or on the reporter: for any two interceptions from the same
  boundary the resulting instances are equal, the state is \<open>{hasError: true}\<close> and
  \<open>render\<close> returns the same fallback view. The error appears only in the log entry and
  in the reporter call.
\<close>

theorem intercept_state_ignores_error:
  "boundary (snd (intercept S1 e1 i1 w)) = boundary (snd (intercept S2 e2 i2 w)) \<and>
   state (boundary (snd (intercept S1 e1 i1 w))) = \<lparr>hasError = True\<rparr> \<and>
   getDerivedStateFromError = \<lparr>hasError = True\<rparr> \<and>
   render (boundary (snd (intercept S1 e1 i1 w))) = fallback_view \<and>
   render (boundary (snd (intercept S2 e2 i2 w))) = fallback_view \<and>
   drop (length (trace w)) (trace (snd (intercept S1 e1 i1 w))) =
     [StateUpdate \<lparr>hasError = True\<rparr>,
      ConsoleLog ''Error caught in ErrorBoundary:'' e1 i1,
      CaptureException e1 (Some \<lparr>extra = i1\<rparr>)]"
  by (simp add: intercept_world render_def getDerivedStateFromError_def)

theorem intercept_state_ignores_error_witness:
  "boundary (snd (intercept working_reporter error_x info_x (mount page_props))) =
   boundary (snd (intercept failing_reporter \<lparr>message = ''y''\<rparr> \<lparr>componentStack = ''at List''\<rparr>
     (mount page_props)))"
  using intercept_state_ignores_error
    [of working_reporter error_x info_x "mount page_props" failing_reporter
        "\<lparr>message = ''y''\<rparr>" "\<lparr>componentStack = ''at List''\<rparr>"]
  by blast

section \<open>Retry and the state machine\<close>

text \<open>
  C8. \<open>handleRetry\<close> on a boundary whose \<open>hasError\<close> is true sets it to false, so the next
  \<open>render\<close> returns the children and the next render pass hands them to the framework
  again: it succeeds if they render and is intercepted again if they throw. Retry leaves
  \<open>props\<close>, and with it the children subtree, as it was; its only effect is the state update.
\<close>

theorem retry_resets_flag_only:
  "hasError (state (boundary w)) \<longrightarrow>
     \<not> hasError (state (boundary (handleRetry w))) \<and>
     props (boundary (handleRetry w)) = props (boundary w) \<and>
     trace (handleRetry w) = trace w @ [StateUpdate \<lparr>hasError = False\<rparr>] \<and>
     render (boundary (handleRetry w)) = children (props (boundary w)) \<and>
     render_pass S host (handleRetry w) =
       (case host (children (props (boundary w))) of
          Renders d \<Rightarrow> (Normal, handleRetry w)
        | Throws e i \<Rightarrow> intercept S e i (handleRetry w))"
  by (simp add: handleRetry_world render_pass_def render_def split: outcome.split)

theorem retry_resets_flag_only_witness:
  "hasError (state (boundary (snd (intercept working_reporter error_x info_x (mount page_props))))) \<and>
   \<not> hasError (state (boundary
        (handleRetry (snd (intercept working_reporter error_x info_x (mount page_props)))))) \<and>
   render (boundary (handleRetry (snd (intercept working_reporter error_x info_x (mount page_props)))))
     = Element (Page ()) [Spread ()] []"
proof -
  let ?w = "snd (intercept working_reporter error_x info_x (mount page_props))"
  have faulted: "hasError (state (boundary ?w))"
    by (simp add: intercept_world)
  have kept: "children (props (boundary ?w)) = Element (Page ()) [Spread ()] []"
    by (simp add: intercept_world mount_def constructor_def page_props_def)
  have "\<not> hasError (state (boundary (handleRetry ?w))) \<and>
      render (boundary (handleRetry ?w)) = children (props (boundary ?w))"
    using retry_resets_flag_only [of ?w] faulted by blast
  with faulted kept show ?thesis by simp
qed

text \<open>
  C2. A boundary is mounted healthy. An interception leaves it faulted and a retry leaves
  it healthy, from either state; rendering changes nothing. The state changes exactly when
  a healthy boundary intercepts an error or a faulted one is retried, so nothing but a retry
  leaves the faulted state. From each state some operation leads to the other one, so no
  state is terminal, and a boundary can go through interception and retry any number of
  times.
\<close>

theorem boundary_state_machine:
  "phase_of (mount p) = Healthy \<and>
   phase_of (step S (Intercept e i) w) = Faulted \<and>
   phase_of (step S Retry w) = Healthy \<and>
   phase_of (step S Render w) = phase_of w \<and>
   (phase_of (step S a w) \<noteq> phase_of w) =
     (phase_of w = Healthy \<and> is_intercept a \<or> phase_of w = Faulted \<and> a = Retry) \<and>
   (phase_of w = Faulted \<and> phase_of (step S a w) = Healthy \<longrightarrow> a = Retry) \<and>
   (\<exists>a'. phase_of (step S a' w) \<noteq> phase_of w) \<and>
   phase_of (((step S Retry \<circ> step S (Intercept e i)) ^^ n) w) =
     (if n = 0 then phase_of w else Healthy)"
proof -
  have mounted: "phase_of (mount p) = Healthy"
    by (simp add: phase_of_def mount_def constructor_def)
  have intercepted: "phase_of (step S (Intercept e i) w) = Faulted"
    by (simp add: phase_after_intercept)
  have retried: "phase_of (step S Retry w) = Healthy"
    by (simp add: phase_after_retry)
  have rendered: "phase_of (step S Render w) = phase_of w"
    by simp
  have changes: "(phase_of (step S a w) \<noteq> phase_of w) =
     (phase_of w = Healthy \<and> is_intercept a \<or> phase_of w = Faulted \<and> a = Retry)"
    by (cases a; cases "phase_of w")
      (simp_all add: phase_after_intercept phase_after_retry is_intercept_def)
  have leaves: "phase_of w = Faulted \<and> phase_of (step S a w) = Healthy \<longrightarrow> a = Retry"
    using changes by auto
  have live: "\<exists>a'. phase_of (step S a' w) \<noteq> phase_of w"
  proof (cases "phase_of w")
    case Healthy
    then have "phase_of (step S (Intercept e i) w) \<noteq> phase_of w"
      by (simp add: phase_after_intercept)
    then show ?thesis ..
  next
    case Faulted
    then have "phase_of (step S Retry w) \<noteq> phase_of w"
      by (simp add: phase_after_retry)
    then show ?thesis ..
  qed
  have cycle: "phase_of (((step S Retry \<circ> step S (Intercept e i)) ^^ n) w) =
     (if n = 0 then phase_of w else Healthy)"
    by (cases n) (simp_all add: phase_after_retry)
  from mounted intercepted retried rendered changes leaves live cycle
  show ?thesis
    by (intro conjI) assumption+
qed

theorem boundary_state_machine_witness:
  "phase_of (step working_reporter (Intercept error_x info_x) (mount page_props)) = Faulted \<and>
   phase_of (step working_reporter Retry
     (step working_reporter (Intercept error_x info_x) (mount page_props))) = Healthy \<and>
   Retry = Retry"
proof -
  let ?w = "step working_reporter (Intercept error_x info_x) (mount page_props)"
  have faulted: "phase_of ?w = Faulted"
    using boundary_state_machine [of page_props working_reporter error_x info_x "mount page_props"]
    by blast
  have healthy: "phase_of (step working_reporter Retry ?w) = Healthy"
    using boundary_state_machine [of page_props working_reporter error_x info_x ?w]
    by blast
  have "phase_of ?w = Faulted \<and> phase_of (step working_reporter Retry ?w) = Healthy \<longrightarrow> Retry = Retry"
    using boundary_state_machine [of page_props working_reporter error_x info_x ?w Retry]
    by blast
  with faulted healthy show ?thesis by blast
qed

section \<open>The application shell\<close>

text \<open>
  C9. \<open>App\<close> returns an element tree and nothing else: its root is the \<open>ApolloProvider\<close>
  element carrying the client, the root's only child is the \<open>ErrorBoundary\<close> element,
  which carries no props, and the page element \<open><Component {...pageProps} />\<close> is a child of
  that boundary element and the only element among its children. The tree holds one
  provider and one boundary, and no event handler.
\<close>

theorem App_nesting:
  "element_type (App client ap) = Some ApolloProvider \<and>
   element_props (App client ap) = [Client client] \<and>
   map element_type (element_children (App client ap)) = [Some ErrorBoundaryClass] \<and>
   map element_props (element_children (App client ap)) = [[]] \<and>
   List.member (concat (map element_children (element_children (App client ap))))
     (Element (Page (Component ap)) [Spread (pageProps ap)] []) \<and>
   filter (\<lambda>n. element_type n \<noteq> None)
     (concat (map element_children (element_children (App client ap)))) =
     [Element (Page (Component ap)) [Spread (pageProps ap)] []] \<and>
   elements_of ApolloProvider (App client ap) = [App client ap] \<and>
   elements_of ErrorBoundaryClass (App client ap) = element_children (App client ap) \<and>
   elements_of (Page (Component ap)) (App client ap) =
     [Element (Page (Component ap)) [Spread (pageProps ap)] []]"
  by (simp add: App_def)

theorem App_nesting_witness:
  "map element_type (element_children (App ''client'' \<lparr>Component = ''Home'', pageProps = ''{}''\<rparr>))
     = [Some ErrorBoundaryClass] \<and>
   elements_of (Page ''Home'') (App ''client'' \<lparr>Component = ''Home'', pageProps = ''{}''\<rparr>)
     = [Element (Page ''Home'') [Spread ''{}''] []]"
  using App_nesting [of "''client''" "\<lparr>Component = ''Home'', pageProps = ''{}''\<rparr>"]
  by simp

end
